theory Spec2Isabelle
  imports Complex_Main
begin

section \<open>JavaScript values\<close>

text \<open>
  The storefront is JavaScript: every field read from a JSON payload or from React state
  is a dynamically typed value, tested with \<^verbatim>\<open>||\<close>, \<^verbatim>\<open>&&\<close>, \<^verbatim>\<open>!\<close> and \<^verbatim>\<open>===\<close>.
  \<open>jsval\<close> is the type of the values that the code compares, tests and prints but
  never computes with: identifiers, flags, tokens, codes, totals as received. Their
  numbers are integers, and strict equality \<^verbatim>\<open>===\<close> on them is HOL equality. The values
  at a quantity position (\<^verbatim>\<open>max_qty\<close>, \<^verbatim>\<open>qty\<close>), which the code orders with \<^verbatim>\<open><\<close> and
  \<^verbatim>\<open>>\<close>, have the type \<open>qval\<close> below, whose numbers are all the numbers of JavaScript.
\<close>

datatype jsval = JUndefined | JNull | JBool bool | JNum int | JStr string

text \<open>Truthiness, as tested by \<^verbatim>\<open>if (v)\<close>, \<^verbatim>\<open>v || d\<close>, \<^verbatim>\<open>v && w\<close> and \<^verbatim>\<open>!v\<close>.\<close>

fun truthy :: "jsval \<Rightarrow> bool" where
  "truthy JUndefined = False"
| "truthy JNull = False"
| "truthy (JBool b) = b"
| "truthy (JNum n) = (n \<noteq> 0)"
| "truthy (JStr s) = (s \<noteq> [])"

text \<open>
  An optional string field of a payload (\<open>None\<close>: the field is absent or \<^verbatim>\<open>null\<close>), and
  \<^verbatim>\<open>a || b\<close> where \<open>b\<close> is a string known to the caller: the empty string is falsy.
\<close>

definition str_or :: "string option \<Rightarrow> string \<Rightarrow> string" where
  "str_or a b = (case a of None \<Rightarrow> b | Some s \<Rightarrow> if s = [] then b else s)"

subsection \<open>Strings\<close>

text \<open>
  Strings are the bytes of their UTF-8 encoding. \<open>digit_char\<close>, \<open>show_nat\<close> and
  \<open>show_int\<close> are the decimal rendering that a template literal or \<^verbatim>\<open>String(n)\<close> gives
  an integer; \<open>digits_to_nat\<close> is the natural number that a run of decimal digits
  denotes.
\<close>

definition byte :: "char \<Rightarrow> nat" where
  "byte c = of_char c"

definition is_digit :: "char \<Rightarrow> bool" where
  "is_digit c = (48 \<le> byte c \<and> byte c \<le> 57)"

definition digit_char :: "nat \<Rightarrow> char" where
  "digit_char d = char_of (48 + d)"

definition digit_val :: "char \<Rightarrow> nat" where
  "digit_val c = byte c - 48"

fun show_nat :: "nat \<Rightarrow> string" where
  "show_nat n = (if n < 10 then [digit_char n] else show_nat (n div 10) @ [digit_char (n mod 10)])"

declare show_nat.simps [simp del]

definition show_int :: "int \<Rightarrow> string" where
  "show_int i = (if i < 0 then CHR ''-'' # show_nat (nat (- i)) else show_nat (nat i))"

definition digits_to_nat :: "string \<Rightarrow> nat" where
  "digits_to_nat ds = foldl (\<lambda>acc c. 10 * acc + digit_val c) 0 ds"

text \<open>
  White space as \<^verbatim>\<open>String.prototype.trim\<close> and the regular expression class \<^verbatim>\<open>\s\<close>
  define it: TAB, LF, VT, FF, CR, SPACE, and the code points U+00A0, U+1680,
  U+2000 to U+200A, U+2028, U+2029, U+202F, U+205F, U+3000 and U+FEFF. \<open>ws_len s\<close> is
  the number of bytes the white-space character at the head of \<open>s\<close> occupies, \<open>0\<close> when
  \<open>s\<close> does not start with one.
\<close>

definition ws_len :: "string \<Rightarrow> nat" where
  "ws_len s =
     (case s of
        [] \<Rightarrow> 0
      | c # r \<Rightarrow>
          if c \<in> {CHR 0x09, CHR 0x0A, CHR 0x0B, CHR 0x0C, CHR 0x0D, CHR 0x20} then 1
          else if take 2 s = [CHR 0xC2, CHR 0xA0] then 2
          else if take 3 s = [CHR 0xE1, CHR 0x9A, CHR 0x80] then 3
          else if take 2 s = [CHR 0xE2, CHR 0x80] \<and> length s \<ge> 3
                  \<and> (0x80 \<le> byte (s ! 2) \<and> byte (s ! 2) \<le> 0x8A
                      \<or> s ! 2 \<in> {CHR 0xA8, CHR 0xA9, CHR 0xAF}) then 3
          else if take 3 s = [CHR 0xE2, CHR 0x81, CHR 0x9F] then 3
          else if take 3 s = [CHR 0xE3, CHR 0x80, CHR 0x80] then 3
          else if take 3 s = [CHR 0xEF, CHR 0xBB, CHR 0xBF] then 3
          else 0)"

function skip_ws :: "string \<Rightarrow> string" where
  "skip_ws s = (if ws_len s = 0 then s else skip_ws (drop (ws_len s) s))"
  by pat_completeness auto
termination
proof (relation "measure length")
  show "wf (measure length)" by simp
next
  fix s :: string
  assume "ws_len s \<noteq> 0"
  then have "s \<noteq> []" by (cases s) (auto simp: ws_len_def)
  with \<open>ws_len s \<noteq> 0\<close> show "(drop (ws_len s) s, s) \<in> measure length" by simp
qed

declare skip_ws.simps [simp del]

fun trim_end :: "string \<Rightarrow> string" where
  "trim_end [] = []"
| "trim_end (c # cs) = (if skip_ws (c # cs) = [] then [] else c # trim_end cs)"

text \<open>\<^verbatim>\<open>s.trim()\<close>.\<close>

definition js_trim :: "string \<Rightarrow> string" where
  "js_trim s = trim_end (skip_ws s)"

text \<open>\<^verbatim>\<open>String(v)\<close> and the interpolation \<^verbatim>\<open>`${v}`\<close>.\<close>

fun js_string :: "jsval \<Rightarrow> string" where
  "js_string JUndefined = ''undefined''"
| "js_string JNull = ''null''"
| "js_string (JBool b) = (if b then ''true'' else ''false'')"
| "js_string (JNum n) = show_int n"
| "js_string (JStr s) = s"

subsection \<open>Numbers and quantities\<close>

text \<open>
  A JavaScript number is \<^verbatim>\<open>NaN\<close>, an infinity or a finite double. The finite doubles
  are real numbers and the code only compares them, so \<open>Fin\<close> ranges over the reals:
  what holds of every real holds of every double. Both zeros are \<open>Fin 0\<close> (they are
  equal, and both falsy). \<open>js_less a b\<close> is \<^verbatim>\<open>a < b\<close> (so \<^verbatim>\<open>a > b\<close> is \<open>js_less b a\<close>) and
  \<open>js_le a b\<close> is \<^verbatim>\<open>a <= b\<close>: a comparison with \<^verbatim>\<open>NaN\<close> is false.
\<close>

datatype jsnum = NaN | NegInf | Fin real | PosInf

fun js_less :: "jsnum \<Rightarrow> jsnum \<Rightarrow> bool" where
  "js_less NaN b = False"
| "js_less a NaN = False"
| "js_less NegInf NegInf = False"
| "js_less NegInf b = True"
| "js_less (Fin x) NegInf = False"
| "js_less (Fin x) (Fin y) = (x < y)"
| "js_less (Fin x) PosInf = True"
| "js_less PosInf b = False"

fun js_le :: "jsnum \<Rightarrow> jsnum \<Rightarrow> bool" where
  "js_le NaN b = False"
| "js_le a NaN = False"
| "js_le a b = (\<not> js_less b a)"

text \<open>A value at a quantity position, and its truthiness.\<close>

datatype qval = QUndefined | QNull | QBool bool | QNum jsnum | QStr string

fun qtruthy :: "qval \<Rightarrow> bool" where
  "qtruthy QUndefined = False"
| "qtruthy QNull = False"
| "qtruthy (QBool b) = b"
| "qtruthy (QNum x) = (x \<noteq> NaN \<and> x \<noteq> Fin 0)"
| "qtruthy (QStr s) = (s \<noteq> [])"

text \<open>A \<open>jsval\<close> placed at a position that may hold any value, as in a request body.\<close>

fun widen :: "jsval \<Rightarrow> qval" where
  "widen JUndefined = QUndefined"
| "widen JNull = QNull"
| "widen (JBool b) = QBool b"
| "widen (JNum n) = QNum (Fin (of_int n))"
| "widen (JStr s) = QStr s"

text \<open>
  Two conversions of the language round to a double and are not computed here; they are
  arguments of the functions that use them, and every theorem holds whatever they are:
  \<^item> \<open>Number_str js s\<close> is \<^verbatim>\<open>Number(s)\<close> for a string \<open>s\<close> that is not empty;
  \<^item> \<open>Number_text js ds\<close> is the text \<^verbatim>\<open>`${Number(ds)}`\<close> for a run of decimal digits \<open>ds\<close>
    whose value is \<open>2 ^ 53\<close> or more.
  Below \<open>2 ^ 53\<close> every natural number is a double and is printed by its decimal
  digits, so there \<^verbatim>\<open>`${Number(ds)}`\<close> is \<open>show_nat (digits_to_nat ds)\<close>.
\<close>

record runtime =
  Number_str :: "string \<Rightarrow> jsnum"
  Number_text :: "string \<Rightarrow> string"

text \<open>\<^verbatim>\<open>Number(v)\<close>; the empty string is \<open>0\<close>.\<close>

fun to_num :: "runtime \<Rightarrow> qval \<Rightarrow> jsnum" where
  "to_num js QUndefined = NaN"
| "to_num js QNull = Fin 0"
| "to_num js (QBool b) = Fin (if b then 1 else 0)"
| "to_num js (QNum x) = x"
| "to_num js (QStr s) = (if s = [] then Fin 0 else Number_str js s)"

text \<open>\<^verbatim>\<open>`${Number(ds)}`\<close> for a run of decimal digits \<open>ds\<close>.\<close>

definition digits_text :: "runtime \<Rightarrow> string \<Rightarrow> string" where
  "digits_text js ds =
     (if digits_to_nat ds < 2 ^ 53 then show_nat (digits_to_nat ds) else Number_text js ds)"


section \<open>Auth store (src/lib/auth.js)\<close>

text \<open>
  \<^verbatim>\<open>localStorage\<close> is a map from keys to strings. \<^verbatim>\<open>getItem\<close> returns \<^verbatim>\<open>null\<close> for a
  missing key; \<^verbatim>\<open>setItem\<close> stores the string form of its argument.
\<close>

type_synonym storage = "string \<rightharpoonup> string"

definition TOKEN_KEY :: string where
  "TOKEN_KEY = ''jwt_access''"

definition USER_EMAIL_KEY :: string where
  "USER_EMAIL_KEY = ''user_email''"

text \<open>\<^verbatim>\<open>access() { return localStorage.getItem(TOKEN_KEY) || null; }\<close>\<close>

definition access :: "storage \<Rightarrow> string option" where
  "access ls = (case ls TOKEN_KEY of None \<Rightarrow> None | Some t \<Rightarrow> if t = [] then None else Some t)"

text \<open>
  The argument of \<^verbatim>\<open>auth.set\<close>: \<open>None\<close> is a \<^verbatim>\<open>null\<close> or \<^verbatim>\<open>undefined\<close> argument,
  otherwise the object's \<^verbatim>\<open>access\<close> and \<^verbatim>\<open>refresh\<close> fields (\<open>JUndefined\<close> when absent).
\<close>

record tokens =
  tok_access :: jsval
  tok_refresh :: jsval

text \<open>\<^verbatim>\<open>set(tokens) { if (tokens?.access) localStorage.setItem(TOKEN_KEY, tokens.access); }\<close>\<close>

definition auth_set :: "tokens option \<Rightarrow> storage \<Rightarrow> storage" where
  "auth_set t ls =
     (case t of
        None \<Rightarrow> ls
      | Some tk \<Rightarrow>
          if truthy (tok_access tk) then ls(TOKEN_KEY \<mapsto> js_string (tok_access tk)) else ls)"

text \<open>\<^verbatim>\<open>clear() { localStorage.removeItem(TOKEN_KEY); }\<close>\<close>

definition auth_clear :: "storage \<Rightarrow> storage" where
  "auth_clear ls = ls(TOKEN_KEY := None)"

text \<open>\<^verbatim>\<open>currentUser.email\<close>: the getter and the setter.\<close>

definition get_email :: "storage \<Rightarrow> string" where
  "get_email ls = str_or (ls USER_EMAIL_KEY) []"

definition set_email :: "string \<Rightarrow> storage \<Rightarrow> storage" where
  "set_email v ls = (if v \<noteq> [] then ls(USER_EMAIL_KEY \<mapsto> v) else ls)"

section \<open>API client (src/lib/api.js)\<close>

text \<open>
  An axios request configuration, as the request interceptor sees it: the method, the
  path relative to the base URL, the JSON body and the query parameters as lists of
  fields, and the headers. Axios hands the interceptor a configuration whose
  \<^verbatim>\<open>headers\<close> object exists; a call without \<^verbatim>\<open>params\<close> is a call with no parameter.
\<close>

datatype http_method = GET | POST | PATCH | DELETE

record request =
  meth :: http_method
  url :: string
  body :: "(string \<times> qval) list"
  params :: "(string \<times> jsval) list"
  headers :: "string \<rightharpoonup> string"

text \<open>\<^verbatim>\<open>cfg.params.k\<close>: a field that is not there reads as \<^verbatim>\<open>undefined\<close>.\<close>

definition param :: "request \<Rightarrow> string \<Rightarrow> jsval" where
  "param cfg k = (case map_of (params cfg) k of None \<Rightarrow> JUndefined | Some v \<Rightarrow> v)"

text \<open>
  \<^verbatim>\<open>
  const isPublic =
    (cfg?.params && String(cfg.params._public) === "1") ||
    (cfg?.params && cfg.params._public === 1) ||
    (cfg?.params && cfg.params._public === true);
  \<close>
\<close>

definition isPublic :: "request \<Rightarrow> bool" where
  "isPublic cfg \<longleftrightarrow>
     js_string (param cfg ''_public'') = ''1''
     \<or> param cfg ''_public'' = JNum 1
     \<or> param cfg ''_public'' = JBool True"

text \<open>
  \<^verbatim>\<open>
  api.interceptors.request.use((cfg) => {
    if (!isPublic) {
      const token = auth.access?.();
      if (token) cfg.headers.Authorization = `Bearer ${token}`;
    } else if (cfg.headers?.Authorization) {
      delete cfg.headers.Authorization;
    }
    return cfg;
  });
  \<close>
\<close>

definition request_interceptor :: "storage \<Rightarrow> request \<Rightarrow> request" where
  "request_interceptor ls cfg =
     (if \<not> isPublic cfg then
        (case access ls of
           None \<Rightarrow> cfg
         | Some token \<Rightarrow> cfg\<lparr>headers := (headers cfg)(''Authorization'' \<mapsto> ''Bearer '' @ token)\<rparr>)
      else
        (case headers cfg ''Authorization'' of
           None \<Rightarrow> cfg
         | Some v \<Rightarrow>
             if v \<noteq> [] then cfg\<lparr>headers := (headers cfg)(''Authorization'' := None)\<rparr> else cfg))"

text \<open>
  \<^verbatim>\<open>api.get(url, {params})\<close>, \<^verbatim>\<open>api.post(url, body, {params})\<close> and the like: the pages pass
  no headers of their own, and the configuration goes through the interceptor before it
  leaves.
\<close>

definition api_request ::
  "storage \<Rightarrow> http_method \<Rightarrow> string \<Rightarrow> (string \<times> qval) list \<Rightarrow> (string \<times> jsval) list
     \<Rightarrow> request" where
  "api_request ls m u b ps =
     request_interceptor ls \<lparr>meth = m, url = u, body = b, params = ps, headers = Map.empty\<rparr>"

text \<open>
  A rejected call, as the pages read it: \<^verbatim>\<open>e?.response?.status\<close> (\<open>None\<close> when there is
  no response, as on a network failure), \<^verbatim>\<open>e?.response?.data?.detail\<close> and
  \<^verbatim>\<open>e?.response?.data?.message\<close> (\<open>None\<close> when absent or \<^verbatim>\<open>null\<close>; the backend sends
  strings in these two fields). The server is a function from the outgoing request to a
  rejection (\<open>Inl\<close>) or to the response's \<^verbatim>\<open>data\<close> (\<open>Inr\<close>).
\<close>

record api_error =
  status :: "int option"
  detail :: "string option"
  message :: "string option"

type_synonym 'd server = "request \<Rightarrow> api_error + 'd"

section \<open>Cart page (src/pages/CartPage.jsx)\<close>

record cart_item =
  item_id :: jsval
  sku :: jsval
  name :: jsval
  qty :: qval
  price :: jsval
  image_url :: jsval
  backordered :: jsval
  expected_date :: jsval

text \<open>The cart as the server sends it; \<open>items = None\<close> when the field is absent or \<^verbatim>\<open>null\<close>.\<close>

record cart_snapshot =
  version :: jsval
  items :: "cart_item list option"
  subtotal :: jsval
  discount_total :: jsval
  tax_total :: jsval
  shipping_total :: jsval
  grand_total :: jsval
  coupon :: jsval
  max_qty :: qval
  free_shipping_threshold :: jsval

text \<open>
  The component's state (\<^verbatim>\<open>cart\<close>, \<^verbatim>\<open>code\<close>, \<^verbatim>\<open>err\<close>, \<^verbatim>\<open>busy\<close>, \<^verbatim>\<open>busyIds\<close>), and the
  requests it has sent so far, oldest first.
\<close>

record cart_page =
  cart :: "cart_snapshot option"
  code :: string
  err :: string
  busy :: bool
  busyIds :: "jsval set"
  sent :: "request list"

text \<open>The object literal of \<^verbatim>\<open>load\<close>'s \<^verbatim>\<open>catch\<close>; the fields it leaves out are \<^verbatim>\<open>undefined\<close>.\<close>

definition empty_cart :: cart_snapshot where
  "empty_cart =
     \<lparr>version = JNull, items = Some [], subtotal = JNum 0, discount_total = JNum 0,
      tax_total = JNum 0, shipping_total = JNum 0, grand_total = JNum 0, coupon = JNull,
      max_qty = QUndefined, free_shipping_threshold = JUndefined\<rparr>"

text \<open>\<^verbatim>\<open>{...cart}\<close>: spreading \<^verbatim>\<open>null\<close> gives an object with no field.\<close>

definition no_fields :: cart_snapshot where
  "no_fields =
     \<lparr>version = JUndefined, items = None, subtotal = JUndefined, discount_total = JUndefined,
      tax_total = JUndefined, shipping_total = JUndefined, grand_total = JUndefined,
      coupon = JUndefined, max_qty = QUndefined, free_shipping_threshold = JUndefined\<rparr>"

definition spread :: "cart_snapshot option \<Rightarrow> cart_snapshot" where
  "spread c = (case c of None \<Rightarrow> no_fields | Some x \<Rightarrow> x)"

text \<open>\<^verbatim>\<open>cart?.f\<close> for a field \<open>f\<close>, \<^verbatim>\<open>cart?.max_qty\<close>, and \<^verbatim>\<open>cart?.items || []\<close>.\<close>

definition cart_field :: "(cart_snapshot \<Rightarrow> jsval) \<Rightarrow> cart_snapshot option \<Rightarrow> jsval" where
  "cart_field f c = (case c of None \<Rightarrow> JUndefined | Some x \<Rightarrow> f x)"

definition cart_max_qty :: "cart_snapshot option \<Rightarrow> qval" where
  "cart_max_qty c = (case c of None \<Rightarrow> QUndefined | Some x \<Rightarrow> max_qty x)"

definition cart_items :: "cart_snapshot option \<Rightarrow> cart_item list" where
  "cart_items c = (case c of None \<Rightarrow> [] | Some x \<Rightarrow> (case items x of None \<Rightarrow> [] | Some xs \<Rightarrow> xs))"

definition public_params :: "(string \<times> jsval) list" where
  "public_params = [(''_public'', JNum 1)]"

text \<open>
  \<^verbatim>\<open>
  const load = useCallback(async () => {
    setErr("");
    try {
      const r = await api.get("/cart/", { params: { _public: 1 } });
      setCart(r.data);
    } catch (e) {
      setErr(e?.response?.data?.detail || "Could not load cart. Please refresh the page.");
      setCart({ version: null, items: [], subtotal: 0, discount_total: 0, tax_total: 0,
                shipping_total: 0, grand_total: 0, coupon: null });
    }
  }, []);
  \<close>
\<close>

definition load_request :: "storage \<Rightarrow> request" where
  "load_request ls = api_request ls GET ''/cart/'' [] public_params"

definition load :: "storage \<Rightarrow> cart_snapshot option server \<Rightarrow> cart_page \<Rightarrow> cart_page" where
  "load ls srv s =
     (let s1 = s\<lparr>err := [], sent := sent s @ [load_request ls]\<rparr>
      in case srv (load_request ls) of
           Inr d \<Rightarrow> s1\<lparr>cart := d\<rparr>
         | Inl e \<Rightarrow>
             s1\<lparr>err := str_or (detail e) ''Could not load cart. Please refresh the page.'',
                cart := Some empty_cart\<rparr>)"

text \<open>
  \<^verbatim>\<open>const maxQty = Number(cart?.max_qty || 0) || null;\<close>
  \<open>None\<close> is \<^verbatim>\<open>null\<close>: the number was \<open>0\<close> or \<^verbatim>\<open>NaN\<close>.
\<close>

definition maxQty :: "runtime \<Rightarrow> cart_snapshot option \<Rightarrow> jsnum option" where
  "maxQty js c =
     (let n = to_num js (if qtruthy (cart_max_qty c) then cart_max_qty c else QNum (Fin 0))
      in if n = NaN \<or> n = Fin 0 then None else Some n)"

text \<open>
  \<^verbatim>\<open>
  async function applyCoupon() {
    const codeTrim = code.trim();
    if (!codeTrim) return;
    setBusy(true); setErr("");
    try {
      await api.post("/cart/apply-coupon/", { code: codeTrim }, { params: { _public: 1 } });
      setCode("");
      await load();
    } catch (e) {
      const status = e?.response?.status;
      const msg = e?.response?.data?.detail || e?.response?.data?.message ||
        (status === 429 ? "Too many attempts. Please wait a moment and try again."
                        : "Coupon failed. Check the code and try again.");
      setErr(msg);
    } finally { setBusy(false); }
  }
  \<close>
  \<^verbatim>\<open>load\<close> catches its own failure, so the \<^verbatim>\<open>catch\<close> here is reached by a rejected POST
  only.
\<close>

definition coupon_request :: "storage \<Rightarrow> string \<Rightarrow> request" where
  "coupon_request ls c = api_request ls POST ''/cart/apply-coupon/'' [(''code'', QStr c)] public_params"

definition applyCoupon :: "storage \<Rightarrow> cart_snapshot option server \<Rightarrow> cart_page \<Rightarrow> cart_page" where
  "applyCoupon ls srv s =
     (let codeTrim = js_trim (code s) in
      if codeTrim = [] then s
      else
        let s1 = s\<lparr>busy := True, err := [], sent := sent s @ [coupon_request ls codeTrim]\<rparr>
        in (case srv (coupon_request ls codeTrim) of
              Inr _ \<Rightarrow> load ls srv (s1\<lparr>code := []\<rparr>)
            | Inl e \<Rightarrow>
                s1\<lparr>err :=
                     str_or (detail e)
                       (str_or (message e)
                          (if status e = Some 429
                           then ''Too many attempts. Please wait a moment and try again.''
                           else ''Coupon failed. Check the code and try again.''))\<rparr>)
           \<lparr>busy := False\<rparr>)"

subsection \<open>The stock hint in a conflict message\<close>

text \<open>
  The regular expression \<^verbatim>\<open>/Available:\s*(\d+)/i\<close>. Without the \<^verbatim>\<open>u\<close> flag, \<^verbatim>\<open>i\<close>
  identifies an ASCII letter with its other case only. \<open>match_here s\<close> is the capture
  group when the expression matches at the very start of \<open>s\<close>: the ten characters of
  \<^verbatim>\<open>available:\<close> in any case, any white space, and the longest run of digits, which is
  not empty. \<open>match_available s\<close> is the capture group of the leftmost match in \<open>s\<close>, as
  \<^verbatim>\<open>String(raw).match(...)\<close> returns it in \<^verbatim>\<open>m[1]\<close>.
\<close>

definition lower :: "char \<Rightarrow> char" where
  "lower c = (if 65 \<le> byte c \<and> byte c \<le> 90 then char_of (byte c + 32) else c)"

definition match_here :: "string \<Rightarrow> string option" where
  "match_here s =
     (if map lower (take 10 s) = ''available:'' then
        (let ds = takeWhile is_digit (skip_ws (drop 10 s))
         in if ds = [] then None else Some ds)
      else None)"

fun match_available :: "string \<Rightarrow> string option" where
  "match_available [] = match_here []"
| "match_available (c # cs) =
     (case match_here (c # cs) of Some ds \<Rightarrow> Some ds | None \<Rightarrow> match_available cs)"

text \<open>The em dash of the messages, U+2014.\<close>

definition em_dash :: string where
  "em_dash = [CHR 0xE2, CHR 0x80, CHR 0x94]"

text \<open>
  \<^verbatim>\<open>
  function prettifyQtyError(e) {
    const status = e?.response?.status;
    if (status === 429) {
      return "You're doing that too quickly. Please slow down and try again.";
    }
    const raw = e?.response?.data?.detail || e?.response?.data?.message ||
      "Could not update quantity.";
    const m = String(raw).match(/Available:\s*(\d+)/i);
    if (status === 409 && m && m[1]) {
      const avail = Number(m[1]);
      return `Stock changed - only ${avail} left.`;     // the dash is U+2014
    }
    return raw;
  }
  \<close>
\<close>

definition prettifyQtyError :: "runtime \<Rightarrow> api_error \<Rightarrow> string" where
  "prettifyQtyError js e =
     (if status e = Some 429 then
        ''You're doing that too quickly. Please slow down and try again.''
      else
        let raw = str_or (detail e) (str_or (message e) ''Could not update quantity.'')
        in (case match_available raw of
              Some ds \<Rightarrow>
                if status e = Some 409
                then ''Stock changed '' @ em_dash @ '' only '' @ digits_text js ds @ '' left.''
                else raw
            | None \<Rightarrow> raw))"

subsection \<open>Quantity change\<close>

text \<open>
  \<^verbatim>\<open>
  async function changeQty(itemId, nextQty) {
    if (nextQty < 1) nextQty = 1;
    if (maxQty && nextQty > maxQty) nextQty = maxQty;
    const prev = cart;
    const next = { ...cart,
      items: (cart?.items || []).map((it) => it.id === itemId ? { ...it, qty: nextQty } : it) };
    setCart(next);
    setItemBusy(itemId, true);
    setErr("");
    try {
      await api.patch(`/cart/items/${itemId}/`, { qty: nextQty }, { params: { _public: 1 } });
      await load();
    } catch (e) {
      setCart(prev); // rollback
      setErr(prettifyQtyError(e));
    } finally {
      setItemBusy(itemId, false);
    }
  }
  \<close>
  \<^verbatim>\<open>nextQty\<close> is a number (the buttons pass \<^verbatim>\<open>Number(it.qty || 1) - 1\<close> and
  \<^verbatim>\<open>Number(it.qty || 0) + 1\<close>), \<^verbatim>\<open>maxQty\<close> a number or \<^verbatim>\<open>null\<close>.
  \<open>clampQty\<close> is the value of \<^verbatim>\<open>nextQty\<close> after the first two lines, \<open>optimistic\<close> the object
  \<^verbatim>\<open>next\<close>. \<open>changeQty_begin\<close> is the state when the function suspends at the PATCH: what
  the page renders until the server answers. \<open>changeQty\<close> is the state when it returns.
\<close>

definition clampQty :: "runtime \<Rightarrow> cart_snapshot option \<Rightarrow> jsnum \<Rightarrow> jsnum" where
  "clampQty js c nextQty =
     (let q = (if js_less nextQty (Fin 1) then Fin 1 else nextQty)
      in case maxQty js c of None \<Rightarrow> q | Some m \<Rightarrow> if js_less m q then m else q)"

definition optimistic :: "cart_snapshot option \<Rightarrow> jsval \<Rightarrow> jsnum \<Rightarrow> cart_snapshot" where
  "optimistic c itemId q =
     (spread c)\<lparr>items :=
        Some (map (\<lambda>it. if item_id it = itemId then it\<lparr>qty := QNum q\<rparr> else it) (cart_items c))\<rparr>"

definition patch_request :: "storage \<Rightarrow> jsval \<Rightarrow> jsnum \<Rightarrow> request" where
  "patch_request ls itemId q =
     api_request ls PATCH (''/cart/items/'' @ js_string itemId @ ''/'') [(''qty'', QNum q)] public_params"

definition changeQty_begin ::
  "runtime \<Rightarrow> storage \<Rightarrow> jsval \<Rightarrow> jsnum \<Rightarrow> cart_page \<Rightarrow> cart_page" where
  "changeQty_begin js ls itemId nextQty s =
     (let q = clampQty js (cart s) nextQty
      in s\<lparr>cart := Some (optimistic (cart s) itemId q),
           busyIds := insert itemId (busyIds s),
           err := [],
           sent := sent s @ [patch_request ls itemId q]\<rparr>)"

definition changeQty ::
  "runtime \<Rightarrow> storage \<Rightarrow> cart_snapshot option server \<Rightarrow> jsval \<Rightarrow> jsnum \<Rightarrow> cart_page
     \<Rightarrow> cart_page" where
  "changeQty js ls srv itemId nextQty s =
     (let q = clampQty js (cart s) nextQty;
          prev = cart s;
          s1 = changeQty_begin js ls itemId nextQty s;
          s2 = (case srv (patch_request ls itemId q) of
                  Inr _ \<Rightarrow> load ls srv s1
                | Inl e \<Rightarrow> s1\<lparr>cart := prev, err := prettifyQtyError js e\<rparr>)
      in s2\<lparr>busyIds := busyIds s2 - {itemId}\<rparr>)"

section \<open>Orders page (src/pages/OrdersPage.jsx)\<close>

text \<open>
  The component's state: \<^verbatim>\<open>orders\<close> (\<open>None\<close> is the initial \<^verbatim>\<open>null\<close>), \<^verbatim>\<open>err\<close>, the
  memoised \<^verbatim>\<open>isAuthed\<close>, \<^verbatim>\<open>loadedRef.current\<close>, and the requests sent so far. An order
  is whatever the server lists; the page only displays it.
\<close>

record 'o orders_page =
  orders :: "'o list option"
  orders_err :: string
  isAuthed :: bool
  loadedRef :: bool
  orders_sent :: "request list"

text \<open>
  The first render:
  \<^verbatim>\<open>useState(null)\<close>, \<^verbatim>\<open>useState("")\<close>, \<^verbatim>\<open>useMemo(() => !!auth.access(), [])\<close>,
  \<^verbatim>\<open>useRef(false)\<close>.
\<close>

definition orders_mount :: "storage \<Rightarrow> 'o orders_page" where
  "orders_mount ls =
     \<lparr>orders = None, orders_err = [], isAuthed = (access ls \<noteq> None), loadedRef = False,
      orders_sent = []\<rparr>"

text \<open>\<^verbatim>\<open>(currentUser.email || "").trim() || "buyer@example.com"\<close>\<close>

definition demoEmail :: "storage \<Rightarrow> string" where
  "demoEmail ls = (let e = js_trim (get_email ls) in if e = [] then ''buyer@example.com'' else e)"

definition me_request :: "storage \<Rightarrow> request" where
  "me_request ls = api_request ls GET ''/orders/me/'' [] []"

definition email_request :: "storage \<Rightarrow> request" where
  "email_request ls =
     api_request ls GET ''/orders/'' [] [(''email'', JStr (demoEmail ls)), (''_public'', JNum 1)]"

text \<open>\<^verbatim>\<open>res.data || []\<close>: an array, also an empty one, is truthy.\<close>

definition data_or_empty :: "'o list option \<Rightarrow> 'o list" where
  "data_or_empty d = (case d of None \<Rightarrow> [] | Some xs \<Rightarrow> xs)"

text \<open>
  \<^verbatim>\<open>
  async function load() {
    setErr("");
    try {
      let res;
      if (isAuthed) {
        res = await api.get("/orders/me/");
      } else {
        const demoEmail = (currentUser.email || "").trim() || "buyer@example.com";
        res = await api.get("/orders/", { params: { email: demoEmail, _public: 1 } });
      }
      setOrders(res.data || []);
    } catch (e) {
      const status = e?.response?.status;
      if (isAuthed && status === 401 && !loadedRef.current) {
        try {
          const demoEmail = (currentUser.email || "").trim() || "buyer@example.com";
          const r2 = await api.get("/orders/", { params: { email: demoEmail, _public: 1 } });
          setOrders(r2.data || []);
          setErr("Session expired. Showing demo orders.");
        } catch {
          setOrders([]);
          setErr("Could not load orders.");
        }
      } else {
        setOrders([]);
        setErr("Could not load orders.");
      }
    } finally {
      loadedRef.current = true;
    }
  }
  \<close>
\<close>

definition orders_load ::
  "storage \<Rightarrow> 'o list option server \<Rightarrow> 'o orders_page \<Rightarrow> 'o orders_page" where
  "orders_load ls srv s =
     (let rq = (if isAuthed s then me_request ls else email_request ls);
          s1 = s\<lparr>orders_err := [], orders_sent := orders_sent s @ [rq]\<rparr>;
          s2 = (case srv rq of
                  Inr d \<Rightarrow> s1\<lparr>orders := Some (data_or_empty d)\<rparr>
                | Inl e \<Rightarrow>
                    if isAuthed s \<and> status e = Some 401 \<and> \<not> loadedRef s then
                      (let s3 = s1\<lparr>orders_sent := orders_sent s1 @ [email_request ls]\<rparr>
                       in case srv (email_request ls) of
                            Inr d2 \<Rightarrow>
                              s3\<lparr>orders := Some (data_or_empty d2),
                                 orders_err := ''Session expired. Showing demo orders.''\<rparr>
                          | Inl _ \<Rightarrow> s3\<lparr>orders := Some [], orders_err := ''Could not load orders.''\<rparr>)
                    else s1\<lparr>orders := Some [], orders_err := ''Could not load orders.''\<rparr>)
      in s2\<lparr>loadedRef := True\<rparr>)"

section \<open>Checkout page (src/pages/CheckoutPage.jsx)\<close>

record quote =
  q_id :: jsval
  q_name :: jsval
  q_code :: jsval
  q_rate :: jsval

record address =
  full_name :: string
  phone :: string
  line1 :: string
  line2 :: string
  city :: string
  state :: string
  postal_code :: string
  country :: string

text \<open>The confirmation that \<^verbatim>\<open>POST /checkout/\<close> returns; the page shows its id and total.\<close>

record order_data =
  order_id :: jsval
  order_total :: jsval

record checkout_page =
  email :: string
  addr :: address
  cartTotals :: "cart_snapshot option"
  quotes :: "quote list"
  shippingId :: jsval
  loading :: bool
  order :: "order_data option"
  checkout_err :: string
  checkout_sent :: "request list"

text \<open>
  \<^verbatim>\<open>
  const loadQuotes = useCallback(async () => {
    if (!cartTotals?.subtotal) return;
    try {
      const body = { subtotal: cartTotals.subtotal };
      const r = await api.post("/shipping/quote/", body, { params: { _public: 1 } });
      const list = r.data || [];
      setQuotes((prev) => {
        // keep previous selection if still present
        const stillThere = list.some((q) => q.id === shippingId);
        if (!stillThere) {
          setShippingId(list.length ? list[0].id : null);
        }
        return list;
      });
      if (!shippingId && list.length) setShippingId(list[0].id);
    } catch {
      setQuotes([]);
    }
  }, [cartTotals?.subtotal, shippingId]);
  \<close>
  \<open>first_id\<close> is \<^verbatim>\<open>list.length ? list[0].id : null\<close>. Both calls of \<^verbatim>\<open>setShippingId\<close>
  read the \<^verbatim>\<open>shippingId\<close> of the closure. \<open>next_shippingId\<close> applies them in the order of
  the text. React runs the updater of \<^verbatim>\<open>setQuotes\<close> when it processes the queue, which may
  be after the last line; \<open>next_shippingId_commute\<close> below shows that the other order
  gives the same state. A rejected request empties the list and leaves \<^verbatim>\<open>shippingId\<close> as
  it is.
\<close>

definition first_id :: "quote list \<Rightarrow> jsval" where
  "first_id list = (case list of [] \<Rightarrow> JNull | q # _ \<Rightarrow> q_id q)"

definition stillThere :: "quote list \<Rightarrow> jsval \<Rightarrow> bool" where
  "stillThere list sid = list_ex (\<lambda>q. q_id q = sid) list"

definition next_shippingId :: "quote list \<Rightarrow> jsval \<Rightarrow> jsval" where
  "next_shippingId list sid =
     (let sid1 = (if \<not> stillThere list sid then first_id list else sid)
      in if \<not> truthy sid \<and> list \<noteq> [] then first_id list else sid1)"

text \<open>
  The same two calls in the other order: the call after \<^verbatim>\<open>setQuotes\<close> first, the call
  inside the updater last.
\<close>

definition next_shippingId_late :: "quote list \<Rightarrow> jsval \<Rightarrow> jsval" where
  "next_shippingId_late list sid =
     (let sid1 = (if \<not> truthy sid \<and> list \<noteq> [] then first_id list else sid)
      in if \<not> stillThere list sid then first_id list else sid1)"

definition quote_request :: "storage \<Rightarrow> jsval \<Rightarrow> request" where
  "quote_request ls sub =
     api_request ls POST ''/shipping/quote/'' [(''subtotal'', widen sub)] public_params"

definition loadQuotes ::
  "storage \<Rightarrow> quote list option server \<Rightarrow> checkout_page \<Rightarrow> checkout_page" where
  "loadQuotes ls srv s =
     (if \<not> truthy (cart_field subtotal (cartTotals s)) then s
      else
        let rq = quote_request ls (cart_field subtotal (cartTotals s));
            s1 = s\<lparr>checkout_sent := checkout_sent s @ [rq]\<rparr>
        in case srv rq of
             Inr d \<Rightarrow>
               (let list = data_or_empty d
                in s1\<lparr>quotes := list, shippingId := next_shippingId list (shippingId s)\<rparr>)
           | Inl _ \<Rightarrow> s1\<lparr>quotes := []\<rparr>)"

text \<open>
  \<^verbatim>\<open>
  const selectedQuote = useMemo(() => {
    if (!quotes?.length) return null;
    return quotes.find((x) => x.id === shippingId) || quotes[0];
  }, [quotes, shippingId]);
  \<close>
\<close>

definition selectedQuote :: "checkout_page \<Rightarrow> quote option" where
  "selectedQuote s =
     (case quotes s of
        [] \<Rightarrow> None
      | q0 # _ \<Rightarrow>
          (case find (\<lambda>x. q_id x = shippingId s) (quotes s) of
             Some q \<Rightarrow> Some q
           | None \<Rightarrow> Some q0))"

text \<open>
  \<^verbatim>\<open>
  function prettifyError(e) {
    const status = e?.response?.status;
    if (status === 429) return "Too many requests - please try again in a moment.";
    const raw = e?.response?.data?.detail || e?.response?.data?.message ||
      "Could not place order.";
    if (status === 409) {
      const m = String(raw).match(/Available:\s*(\d+)/i);
      if (m && m[1]) return `Stock changed - only ${m[1]} left on one or more items.`;
    }
    return raw;
  }
  \<close>
  (both dashes are U+2014 in the source).
\<close>

definition prettifyError :: "api_error \<Rightarrow> string" where
  "prettifyError e =
     (if status e = Some 429 then
        ''Too many requests '' @ em_dash @ '' please try again in a moment.''
      else
        let raw = str_or (detail e) (str_or (message e) ''Could not place order.'')
        in if status e = Some 409 then
             (case match_available raw of
                Some ds \<Rightarrow> ''Stock changed '' @ em_dash @ '' only '' @ ds @ '' left on one or more items.''
              | None \<Rightarrow> raw)
           else raw)"

text \<open>
  \<^verbatim>\<open>
  const canSubmit = useMemo(() =>
      !!email && !!address.full_name && !!address.phone && !!address.line1 &&
      !!address.city && !!address.state && !!address.postal_code && !!address.country &&
      (cartTotals?.items?.length || 0) > 0, [email, address, cartTotals]);

  async function placeOrder(e) {
    e?.preventDefault?.();
    if (!canSubmit || loading) return;
    setLoading(true);
    setErr("");
    try {
      const payload = { ... };
      const r = await api.post("/checkout/", payload, { params: { _public: 1 } });
      setOrder(r.data);
    } catch (e2) {
      setErr(prettifyError(e2));
    } finally {
      setLoading(false);
    }
  }
  \<close>
  The payload object (the trimmed email, the address with its country code, the coupon
  code and the shipping method when there is one) is an argument of \<open>placeOrder\<close>: how it
  is assembled plays no part in what follows.
\<close>

definition canSubmit :: "checkout_page \<Rightarrow> bool" where
  "canSubmit s \<longleftrightarrow>
     email s \<noteq> [] \<and> full_name (addr s) \<noteq> [] \<and> phone (addr s) \<noteq> [] \<and> line1 (addr s) \<noteq> []
     \<and> city (addr s) \<noteq> [] \<and> state (addr s) \<noteq> [] \<and> postal_code (addr s) \<noteq> []
     \<and> country (addr s) \<noteq> [] \<and> length (cart_items (cartTotals s)) > 0"

definition checkout_request :: "storage \<Rightarrow> (string \<times> qval) list \<Rightarrow> request" where
  "checkout_request ls payload = api_request ls POST ''/checkout/'' payload public_params"

definition placeOrder ::
  "storage \<Rightarrow> order_data option server \<Rightarrow> (string \<times> qval) list \<Rightarrow> checkout_page
     \<Rightarrow> checkout_page" where
  "placeOrder ls srv payload s =
     (if \<not> canSubmit s \<or> loading s then s
      else
        let s1 = s\<lparr>loading := True, checkout_err := [],
                   checkout_sent := checkout_sent s @ [checkout_request ls payload]\<rparr>
        in (case srv (checkout_request ls payload) of
              Inr d \<Rightarrow> s1\<lparr>order := d\<rparr>
            | Inl e2 \<Rightarrow> s1\<lparr>checkout_err := prettifyError e2\<rparr>)
           \<lparr>loading := False\<rparr>)"

section \<open>Sample data\<close>

text \<open>
  Concrete carts, pages, servers and rejections, on which the theorems below are
  instantiated. \<open>accepting d\<close> answers every request with the data \<open>d\<close>,
  \<open>rejecting e\<close> rejects every request with \<open>e\<close>.
\<close>

text \<open>
  A runtime for the samples. None of them holds a numeric string or a digit run of
  \<open>2 ^ 53\<close> or more, so no instance below evaluates its two functions.
\<close>

definition sample_runtime :: runtime where
  "sample_runtime = \<lparr>Number_str = (\<lambda>s. NaN), Number_text = (\<lambda>ds. ds)\<rparr>"

definition accepting :: "'d \<Rightarrow> 'd server" where
  "accepting d = (\<lambda>rq. Inr d)"

definition rejecting :: "api_error \<Rightarrow> 'd server" where
  "rejecting e = (\<lambda>rq. Inl e)"

definition sample_item :: cart_item where
  "sample_item =
     \<lparr>item_id = JNum 7, sku = JStr ''SKU-7'', name = JStr ''Mug'', qty = QNum (Fin 2),
      price = JNum 100,
      image_url = JNull, backordered = JBool False, expected_date = JNull\<rparr>"

definition other_item :: cart_item where
  "other_item =
     \<lparr>item_id = JNum 8, sku = JStr ''SKU-8'', name = JStr ''Pen'', qty = QNum (Fin 1),
      price = JNum 20,
      image_url = JNull, backordered = JBool False, expected_date = JNull\<rparr>"

definition sample_cart :: cart_snapshot where
  "sample_cart =
     \<lparr>version = JStr ''v1'', items = Some [sample_item, other_item], subtotal = JNum 220,
      discount_total = JNum 0, tax_total = JNum 11, shipping_total = JNum 40,
      grand_total = JNum 271, coupon = JNull, max_qty = QNum (Fin 5),
      free_shipping_threshold = JUndefined\<rparr>"

definition sample_page :: cart_page where
  "sample_page =
     \<lparr>cart = Some sample_cart, code = [], err = [], busy = False, busyIds = {}, sent = []\<rparr>"

definition conflict_error :: api_error where
  "conflict_error =
     \<lparr>status = Some 409, detail = Some ''Insufficient stock. Available: 3'', message = None\<rparr>"

definition server_down :: api_error where
  "server_down = \<lparr>status = None, detail = None, message = None\<rparr>"

definition negative_policy_page :: cart_page where
  "negative_policy_page =
     sample_page\<lparr>cart := Some (sample_cart\<lparr>max_qty := QNum (Fin (- 3))\<rparr>)\<rparr>"

definition fractional_policy_page :: cart_page where
  "fractional_policy_page =
     sample_page\<lparr>cart := Some (sample_cart\<lparr>max_qty := QNum (Fin (1 / 2))\<rparr>)\<rparr>"



definition unauthorized :: api_error where
  "unauthorized = \<lparr>status = Some 401, detail = Some ''Token expired'', message = None\<rparr>"

definition expired_session :: "'d \<Rightarrow> 'd server" where
  "expired_session d = (\<lambda>rq. if url rq = ''/orders/me/'' then Inl unauthorized else Inr d)"

definition express :: quote where
  "express = \<lparr>q_id = JNum 5, q_name = JStr ''Express'', q_code = JStr ''EXP'', q_rate = JNum 120\<rparr>"

definition standard :: quote where
  "standard = \<lparr>q_id = JNum 0, q_name = JStr ''Standard'', q_code = JStr ''STD'', q_rate = JNum 40\<rparr>"

definition economy :: quote where
  "economy = \<lparr>q_id = JNum 9, q_name = JStr ''Economy'', q_code = JStr ''ECO'', q_rate = JNum 20\<rparr>"

definition sample_checkout :: checkout_page where
  "sample_checkout =
     \<lparr>email = ''buyer@example.com'',
      addr = \<lparr>full_name = ''Buyer Test'', phone = ''9999999999'', line1 = ''221B Baker Street'',
              line2 = [], city = ''Kochi'', state = ''Kerala'', postal_code = ''682001'',
              country = ''IN''\<rparr>,
      cartTotals = Some sample_cart, quotes = [express, economy], shippingId = JNum 9,
      loading = False, order = None, checkout_err = [], checkout_sent = []\<rparr>"

definition zero_id_checkout :: checkout_page where
  "zero_id_checkout = sample_checkout\<lparr>quotes := [standard, economy], shippingId := JNum 0\<rparr>"

definition throttled :: api_error where
  "throttled =
     \<lparr>status = Some 429,
      detail = Some ''Request was throttled. Expected available in 30 seconds.'',
      message = None\<rparr>"



section \<open>Auxiliary facts\<close>

lemma body_interceptor: "body (request_interceptor ls cfg) = body cfg"
  by (simp add: request_interceptor_def split: option.splits)

lemma meth_interceptor: "meth (request_interceptor ls cfg) = meth cfg"
  by (simp add: request_interceptor_def split: option.splits)

lemma params_interceptor: "params (request_interceptor ls cfg) = params cfg"
  by (simp add: request_interceptor_def split: option.splits)

lemma body_patch_request: "body (patch_request ls itemId q) = [(''qty'', QNum q)]"
  by (simp add: patch_request_def api_request_def body_interceptor)

lemma sent_load: "sent (load ls srv s) = sent s @ [load_request ls]"
  by (simp add: load_def Let_def split: sum.splits)

lemma sent_changeQty_begin:
  "sent (changeQty_begin js ls itemId nextQty s) =
     sent s @ [patch_request ls itemId (clampQty js (cart s) nextQty)]"
  by (simp add: changeQty_begin_def Let_def)

lemma cart_changeQty_begin:
  "cart (changeQty_begin js ls itemId nextQty s) =
     Some (optimistic (cart s) itemId (clampQty js (cart s) nextQty))"
  by (simp add: changeQty_begin_def Let_def)

lemma sent_changeQty:
  "sent (changeQty js ls srv itemId nextQty s) =
     sent s @ patch_request ls itemId (clampQty js (cart s) nextQty)
       # (case srv (patch_request ls itemId (clampQty js (cart s) nextQty)) of
            Inl e \<Rightarrow> [] | Inr d \<Rightarrow> [load_request ls])"
  by (simp add: changeQty_def Let_def sent_load sent_changeQty_begin split: sum.splits)

lemma cart_items_optimistic:
  "cart_items (Some (optimistic c itemId q)) =
     map (\<lambda>it. if item_id it = itemId then it\<lparr>qty := QNum q\<rparr> else it) (cart_items c)"
  by (simp add: optimistic_def cart_items_def)

lemma cart_field_optimistic:
  "f \<in> {version, subtotal, discount_total, tax_total, shipping_total, grand_total, coupon,
         free_shipping_threshold}
    \<Longrightarrow> cart_field f (Some (optimistic c itemId q)) = cart_field f c"
  by (auto simp: optimistic_def cart_field_def spread_def no_fields_def split: option.splits)

text \<open>
  \<^verbatim>\<open>maxQty\<close> is the number that \<^verbatim>\<open>max_qty\<close> coerces to, unless that is \<open>0\<close> or \<^verbatim>\<open>NaN\<close>: a
  falsy \<^verbatim>\<open>max_qty\<close> coerces to one of the two.
\<close>

lemma maxQty_eq:
  "maxQty js c =
     (if to_num js (cart_max_qty c) = NaN \<or> to_num js (cart_max_qty c) = Fin 0 then None
      else Some (to_num js (cart_max_qty c)))"
proof (cases "cart_max_qty c")
  case (QStr x)
  then show ?thesis by (cases "x = []") (simp_all add: maxQty_def Let_def)
qed (auto simp: maxQty_def Let_def)







lemma clampQty_sample:
  "clampQty js (Some sample_cart) n =
     (if js_less n (Fin 1) then Fin 1 else if js_less (Fin 5) n then Fin 5 else n)"
  by (simp add: clampQty_def maxQty_def Let_def cart_max_qty_def sample_cart_def)

lemma url_interceptor: "url (request_interceptor ls cfg) = url cfg"
  by (simp add: request_interceptor_def split: option.splits)

lemma url_me_request: "url (me_request ls) = ''/orders/me/''"
  by (simp add: me_request_def api_request_def url_interceptor)

lemma url_email_request: "url (email_request ls) = ''/orders/''"
  by (simp add: email_request_def api_request_def url_interceptor)

lemma isPublic_email_request: "isPublic (email_request ls)"
  by (simp add: email_request_def api_request_def isPublic_def param_def params_interceptor)

lemma headers_email_request: "headers (email_request ls) ''Authorization'' = None"
  by (simp add: email_request_def api_request_def request_interceptor_def isPublic_def param_def)

lemma param_email_request: "param (email_request ls) ''email'' = JStr (demoEmail ls)"
  by (simp add: email_request_def api_request_def param_def params_interceptor)

lemma get_email_sample: "get_email [USER_EMAIL_KEY \<mapsto> '' ann@example.com ''] = '' ann@example.com ''"
  by (simp add: get_email_def str_or_def)

lemma js_trim_sample: "js_trim '' ann@example.com '' = ''ann@example.com''"
  by code_simp

lemma next_shippingId_commute: "next_shippingId_late list sid = next_shippingId list sid"
  by (simp add: next_shippingId_late_def next_shippingId_def)

lemma stillThere_iff: "stillThere list sid \<longleftrightarrow> sid \<in> q_id ` set list"
  by (auto simp: stillThere_def list_ex_iff)

lemma find_first_id:
  "list \<noteq> [] \<Longrightarrow> find (\<lambda>x. q_id x = first_id list) list = Some (hd list)"
  by (cases list) (simp_all add: first_id_def)

lemma find_present:
  "sid \<in> q_id ` set list \<Longrightarrow> \<exists>q \<in> set list. find (\<lambda>x. q_id x = sid) list = Some q \<and> q_id q = sid"
  by (induction list) auto

lemma subtotal_sample_checkout:
  "cart_field subtotal (cartTotals (sample_checkout\<lparr>quotes := qs, shippingId := i\<rparr>)) = JNum 220"
  "cart_field subtotal (cartTotals sample_checkout) = JNum 220"
  by (simp_all add: sample_checkout_def cart_field_def sample_cart_def)

lemma js_trim_SAVE10: "js_trim ''SAVE10'' = ''SAVE10''"
  by code_simp








































section \<open>Auth store: a falsy token is never written\<close>

text \<open>
  Claim C10. For every call \<^verbatim>\<open>auth.set(tokens)\<close> where \<^verbatim>\<open>tokens\<close> is \<^verbatim>\<open>null\<close> or
  \<^verbatim>\<open>undefined\<close>, or its \<^verbatim>\<open>access\<close> field is absent or falsy, the storage is left as it
  was, and \<^verbatim>\<open>auth.access()\<close> returns afterwards exactly what it returned before: \<^verbatim>\<open>set\<close>
  never clears the token and never overwrites it with an empty value.
\<close>

theorem auth_set_falsy_keeps_token:
  assumes "t = None \<or> (\<exists>tk. t = Some tk \<and> \<not> truthy (tok_access tk))"
  shows "auth_set t ls = ls \<and> access (auth_set t ls) = access ls"
  using assms by (auto simp: auth_set_def)

theorem auth_set_falsy_keeps_token_witness:
  "\<not> truthy (tok_access \<lparr>tok_access = JStr [], tok_refresh = JStr ''r''\<rparr>)
   \<and> access (auth_set (Some \<lparr>tok_access = JStr [], tok_refresh = JStr ''r''\<rparr>)
               [TOKEN_KEY \<mapsto> ''abc''])
       = Some ''abc''
   \<and> access (auth_set None [TOKEN_KEY \<mapsto> ''abc'']) = Some ''abc''"
  using auth_set_falsy_keeps_token
          [of "Some \<lparr>tok_access = JStr [], tok_refresh = JStr ''r''\<rparr>" "[TOKEN_KEY \<mapsto> ''abc'']"]
        auth_set_falsy_keeps_token [of None "[TOKEN_KEY \<mapsto> ''abc'']"]
  by (simp add: access_def)

section \<open>Cart page: reload\<close>

text \<open>
  Claim C7. For every cart reload: when the GET succeeds, the cart snapshot becomes the
  fetched cart as a whole, nothing of the old snapshot is merged in; when it fails, the
  snapshot becomes the empty cart shape, with an empty items list, the five totals
  (subtotal, discount_total, tax_total, shipping_total, grand_total) equal to zero and a
  null coupon, and a non-empty error message is set.
\<close>

theorem load_replaces_snapshot:
  "(srv (load_request ls) = Inr d \<longrightarrow> cart (load ls srv s) = d)
   \<and> (srv (load_request ls) = Inl e \<longrightarrow>
        (\<exists>c. cart (load ls srv s) = Some c \<and> items c = Some []
           \<and> subtotal c = JNum 0 \<and> discount_total c = JNum 0 \<and> tax_total c = JNum 0
           \<and> shipping_total c = JNum 0 \<and> grand_total c = JNum 0 \<and> coupon c = JNull)
        \<and> err (load ls srv s) \<noteq> [])"
  by (simp add: load_def Let_def empty_cart_def str_or_def split: option.splits)

theorem load_replaces_snapshot_witness:
  "accepting (Some sample_cart) (load_request Map.empty) = Inr (Some sample_cart)
   \<and> cart (load Map.empty (accepting (Some sample_cart)) (sample_page\<lparr>cart := None\<rparr>))
       = Some sample_cart
   \<and> rejecting server_down (load_request Map.empty)
       = (Inl server_down :: api_error + cart_snapshot option)
   \<and> cart (load Map.empty (rejecting server_down) sample_page) = Some empty_cart
   \<and> err (load Map.empty (rejecting server_down) sample_page)
       = ''Could not load cart. Please refresh the page.''"
  using load_replaces_snapshot [where srv = "accepting (Some sample_cart)" and ls = Map.empty
          and d = "Some sample_cart" and s = "sample_page\<lparr>cart := None\<rparr>"]
        load_replaces_snapshot [where srv = "rejecting server_down" and ls = Map.empty
          and e = server_down and s = sample_page]
  by (simp add: accepting_def rejecting_def load_def Let_def str_or_def server_down_def)

section \<open>Cart page: rollback of a failed quantity change\<close>

text \<open>
  Claim C1. For every quantity change \<^verbatim>\<open>changeQty(itemId, nextQty)\<close>: if the PATCH for
  that line is rejected, the cart held by the page when \<^verbatim>\<open>changeQty\<close> returns is the
  snapshot it held when \<^verbatim>\<open>changeQty\<close> was called, in every field.
\<close>

theorem changeQty_rollback:
  assumes "srv (patch_request ls itemId (clampQty js (cart s) nextQty)) = Inl e"
  shows "cart (changeQty js ls srv itemId nextQty s) = cart s"
  using assms by (simp add: changeQty_def Let_def)

theorem changeQty_rollback_witness:
  "rejecting conflict_error
       (patch_request Map.empty (JNum 7) (clampQty sample_runtime (cart sample_page) (Fin 3)))
     = (Inl conflict_error :: api_error + cart_snapshot option)
   \<and> cart (changeQty_begin sample_runtime Map.empty (JNum 7) (Fin 3) sample_page)
       \<noteq> Some sample_cart
   \<and> cart (changeQty sample_runtime Map.empty (rejecting conflict_error) (JNum 7) (Fin 3)
              sample_page)
       = Some sample_cart"
  using changeQty_rollback [where srv = "rejecting conflict_error" and ls = Map.empty
          and js = sample_runtime and itemId = "JNum 7" and nextQty = "Fin 3"
          and s = sample_page and e = conflict_error]
  by (simp add: rejecting_def sample_page_def cart_changeQty_begin optimistic_def spread_def
        cart_items_def sample_cart_def sample_item_def other_item_def clampQty_def maxQty_def
        Let_def cart_max_qty_def)

text \<open>
  When the PATCH succeeds the \<^verbatim>\<open>catch\<close> is not reached, whatever the reload does: the cart
  is the one \<^verbatim>\<open>load\<close> leaves, the empty shape if the reload fails.
\<close>

lemma changeQty_success_reloads:
  assumes "srv (patch_request ls itemId (clampQty js (cart s) nextQty)) = Inr d"
  shows "cart (changeQty js ls srv itemId nextQty s)
           = (case srv (load_request ls) of Inr c \<Rightarrow> c | Inl e \<Rightarrow> Some empty_cart)"
  using assms by (simp add: changeQty_def load_def Let_def split: sum.splits)

section \<open>Cart page: the optimistic write\<close>

text \<open>
  Claim C9. For every optimistic quantity write of \<^verbatim>\<open>changeQty(itemId, nextQty)\<close>: in the
  cart that the page renders before the server answers, the cart-level fields
  (version, subtotal, discount_total, tax_total, shipping_total, grand_total, coupon)
  are those of the prior snapshot, the items are the prior items in the same order, an
  item whose id is not \<^verbatim>\<open>itemId\<close> is unchanged, and an item whose id is \<^verbatim>\<open>itemId\<close> differs
  from its prior value in the \<^verbatim>\<open>qty\<close> field only, which holds the clamped quantity.
\<close>

theorem optimistic_frame:
  "(\<forall>f \<in> {version, subtotal, discount_total, tax_total, shipping_total, grand_total, coupon}.
      cart_field f (cart (changeQty_begin js ls itemId nextQty s)) = cart_field f (cart s))
   \<and> list_all2
       (\<lambda>a b. (item_id a = itemId \<longrightarrow> b = a\<lparr>qty := QNum (clampQty js (cart s) nextQty)\<rparr>)
            \<and> (item_id a \<noteq> itemId \<longrightarrow> b = a))
       (cart_items (cart s)) (cart_items (cart (changeQty_begin js ls itemId nextQty s)))"
proof -
  let ?q = "clampQty js (cart s) nextQty"
  have fields:
    "\<forall>f \<in> {version, subtotal, discount_total, tax_total, shipping_total, grand_total, coupon}.
       cart_field f (cart (changeQty_begin js ls itemId nextQty s)) = cart_field f (cart s)"
    unfolding cart_changeQty_begin by (auto intro: cart_field_optimistic)
  have "list_all2
       (\<lambda>a b. (item_id a = itemId \<longrightarrow> b = a\<lparr>qty := QNum ?q\<rparr>) \<and> (item_id a \<noteq> itemId \<longrightarrow> b = a))
       xs (map (\<lambda>it. if item_id it = itemId then it\<lparr>qty := QNum ?q\<rparr> else it) xs)"
    for xs :: "cart_item list"
    by (induction xs) auto
  then show ?thesis
    using fields by (simp add: cart_changeQty_begin cart_items_optimistic)
qed

theorem optimistic_frame_witness:
  "item_id sample_item = JNum 7 \<and> item_id other_item \<noteq> JNum 7
   \<and> cart_items (cart sample_page) = [sample_item, other_item]
   \<and> cart_items (cart (changeQty_begin sample_runtime Map.empty (JNum 7) (Fin 3) sample_page))
       = [sample_item\<lparr>qty := QNum (Fin 3)\<rparr>, other_item]
   \<and> cart_field grand_total
         (cart (changeQty_begin sample_runtime Map.empty (JNum 7) (Fin 3) sample_page))
       = JNum 271
   \<and> cart_field version
         (cart (changeQty_begin sample_runtime Map.empty (JNum 7) (Fin 3) sample_page))
       = JStr ''v1''"
proof -
  have q: "clampQty sample_runtime (cart sample_page) (Fin 3) = Fin 3"
    by (simp add: sample_page_def clampQty_sample)
  have its: "cart_items (cart sample_page) = [sample_item, other_item]"
    by (simp add: sample_page_def cart_items_def sample_cart_def)
  have ids: "item_id sample_item = JNum 7" "item_id other_item \<noteq> JNum 7"
    by (simp_all add: sample_item_def other_item_def)
  have flds: "cart_field grand_total (cart sample_page) = JNum 271"
    "cart_field version (cart sample_page) = JStr ''v1''"
    by (simp_all add: sample_page_def cart_field_def sample_cart_def)
  show ?thesis
    using optimistic_frame [of sample_runtime Map.empty "JNum 7" "Fin 3" sample_page]
    by (auto simp: q its ids flds list_all2_Cons1)
qed

section \<open>Cart page: the quantity that is sent\<close>

text \<open>
  Claim C3, as stated: if \<^verbatim>\<open>nextQty\<close> is below 1 the quantity sent is 1; if \<^verbatim>\<open>max_qty\<close>
  coerces to a positive number and \<^verbatim>\<open>nextQty\<close> exceeds it, the quantity sent is that
  maximum; otherwise the quantity sent is \<^verbatim>\<open>nextQty\<close>. The guard \<^verbatim>\<open>maxQty && ...\<close> tests
  for a number other than zero, and the maximum is applied after the minimum. With
  \<^verbatim>\<open>max_qty = -3\<close> there is no positive maximum and \<^verbatim>\<open>nextQty = 5\<close> is not below 1, yet
  the quantity sent is \<open>-3\<close>, not 5. With \<^verbatim>\<open>max_qty = 0.5\<close>, \<^verbatim>\<open>nextQty = 0\<close> is below 1, yet
  the quantity sent is \<open>0.5\<close>, not 1.
\<close>

theorem changeQty_negative_policy_counterexample:
  "to_num sample_runtime (cart_max_qty (cart negative_policy_page)) = Fin (- 3)
   \<and> \<not> js_less (Fin 0) (Fin (- 3))
   \<and> \<not> js_less (Fin 5) (Fin 1)
   \<and> map body (sent (changeQty sample_runtime Map.empty (rejecting conflict_error) (JNum 7) (Fin 5)
                       negative_policy_page))
       = [[(''qty'', QNum (Fin (- 3)))]]
   \<and> QNum (Fin (- 3)) \<noteq> QNum (Fin 5)
   \<and> to_num sample_runtime (cart_max_qty (cart fractional_policy_page)) = Fin (1 / 2)
   \<and> js_less (Fin 0) (Fin 1)
   \<and> map body (sent (changeQty sample_runtime Map.empty (rejecting conflict_error) (JNum 7) (Fin 0)
                       fractional_policy_page))
       = [[(''qty'', QNum (Fin (1 / 2)))]]
   \<and> QNum (Fin (1 / 2)) \<noteq> QNum (Fin 1)"
  by (simp add: sent_changeQty body_patch_request rejecting_def negative_policy_page_def
      fractional_policy_page_def sample_page_def clampQty_def maxQty_def Let_def cart_max_qty_def
      sample_cart_def)

text \<open>
  Claim C3, amended. For every call \<^verbatim>\<open>changeQty(itemId, nextQty)\<close> on a cart whose
  \<^verbatim>\<open>max_qty\<close> coerces to \<^verbatim>\<open>NaN\<close>, to 0, or to a number that is at least 1 (there is no
  maximum, or the maximum is at least 1): the call sends one PATCH, before any other
  request, whose body is \<^verbatim>\<open>{qty: q}\<close>, where \<open>q\<close> is 1 if \<^verbatim>\<open>nextQty\<close> is below 1; \<open>q\<close> is the
  maximum if \<^verbatim>\<open>max_qty\<close> coerces to a positive number that \<^verbatim>\<open>nextQty\<close> exceeds; and \<open>q\<close> is
  \<^verbatim>\<open>nextQty\<close> otherwise. Here \<open>m\<close> is the number that \<^verbatim>\<open>max_qty\<close> coerces to, and \<^verbatim>\<open>nextQty\<close>
  is any number, \<^verbatim>\<open>NaN\<close> and the infinities included.
\<close>

theorem changeQty_sends_clamped:
  assumes "m = to_num js (cart_max_qty (cart s))"
    and "m = NaN \<or> m = Fin 0 \<or> js_le (Fin 1) m"
  shows "\<exists>q rest.
           sent (changeQty js ls srv itemId nextQty s) = sent s @ patch_request ls itemId q # rest
           \<and> body (patch_request ls itemId q) = [(''qty'', QNum q)]
           \<and> (js_less nextQty (Fin 1) \<longrightarrow> q = Fin 1)
           \<and> (js_less (Fin 0) m \<and> js_less m nextQty \<longrightarrow> q = m)
           \<and> (\<not> js_less nextQty (Fin 1) \<and> \<not> (js_less (Fin 0) m \<and> js_less m nextQty)
                \<longrightarrow> q = nextQty)"
proof -
  let ?q = "clampQty js (cart s) nextQty"
  have mq: "maxQty js (cart s) = (if m = NaN \<or> m = Fin 0 then None else Some m)"
    unfolding assms(1) by (rule maxQty_eq)
  have low: "js_less nextQty (Fin 1) \<longrightarrow> ?q = Fin 1"
    using assms(2) by (cases m) (auto simp: clampQty_def Let_def mq)
  have high: "js_less (Fin 0) m \<and> js_less m nextQty \<longrightarrow> ?q = m"
    using assms(2) by (cases m; cases nextQty) (auto simp: clampQty_def Let_def mq)
  have rest: "\<not> js_less nextQty (Fin 1) \<and> \<not> (js_less (Fin 0) m \<and> js_less m nextQty)
                \<longrightarrow> ?q = nextQty"
    using assms(2) by (cases m; cases nextQty) (auto simp: clampQty_def Let_def mq)
  show ?thesis
    using low high rest sent_changeQty [of js ls srv itemId nextQty s]
      body_patch_request [of ls itemId ?q]
    by blast
qed

theorem changeQty_sends_clamped_witness:
  "to_num sample_runtime (cart_max_qty (cart sample_page)) = Fin 5
   \<and> js_le (Fin 1) (Fin 5)
   \<and> map body (sent (changeQty sample_runtime Map.empty (rejecting conflict_error) (JNum 7) (Fin 0)
                       sample_page))
       = [[(''qty'', QNum (Fin 1))]]
   \<and> map body (sent (changeQty sample_runtime Map.empty (rejecting conflict_error) (JNum 7) (Fin 9)
                       sample_page))
       = [[(''qty'', QNum (Fin 5))]]
   \<and> map body (sent (changeQty sample_runtime Map.empty (rejecting conflict_error) (JNum 7)
                       (Fin (7 / 2)) sample_page))
       = [[(''qty'', QNum (Fin (7 / 2)))]]"
proof -
  have q: "clampQty sample_runtime (cart sample_page) (Fin 0) = Fin 1"
    "clampQty sample_runtime (cart sample_page) (Fin 9) = Fin 5"
    "clampQty sample_runtime (cart sample_page) (Fin (7 / 2)) = Fin (7 / 2)"
    by (simp_all add: sample_page_def clampQty_sample)
  have m: "to_num sample_runtime (cart_max_qty (cart sample_page)) = Fin 5"
    by (simp add: sample_page_def cart_max_qty_def sample_cart_def)
  have s: "sent sample_page = []"
    by (simp add: sample_page_def)
  show ?thesis
    using changeQty_sends_clamped
      [of "Fin 5" sample_runtime sample_page Map.empty "rejecting conflict_error" "JNum 7" "Fin 0"]
    by (simp add: sent_changeQty body_patch_request rejecting_def q m s)
qed

section \<open>API client: the credential header\<close>




section \<open>Orders page: the session-expired fallback\<close>

text \<open>
  Claim C6. For the orders view mounted with a stored access token: if the authenticated
  fetch of \<^verbatim>\<open>/orders/me/\<close> is rejected with status 401 on the first load, the view sends
  a second request, the public fetch of \<^verbatim>\<open>/orders/\<close> keyed by the remembered email
  (trimmed) or, when there is none, by the demo email; when that succeeds the view shows
  its result with the notice that the session expired. On a later load (the view has
  completed a load before) a 401 sends no second request: the list is empty and the
  generic message is shown. Every load marks the view as loaded.
\<close>

theorem orders_session_expired_fallback:
  "(isAuthed s \<and> \<not> loadedRef s \<and> srv (me_request ls) = Inl e \<and> status e = Some 401
      \<and> srv (email_request ls) = Inr d \<longrightarrow>
        orders_sent (orders_load ls srv s) = orders_sent s @ [me_request ls, email_request ls]
        \<and> orders (orders_load ls srv s) = Some (data_or_empty d)
        \<and> orders_err (orders_load ls srv s) = ''Session expired. Showing demo orders.'')
   \<and> (isAuthed s \<and> loadedRef s \<and> srv (me_request ls) = Inl e \<and> status e = Some 401 \<longrightarrow>
        orders_sent (orders_load ls srv s) = orders_sent s @ [me_request ls]
        \<and> orders (orders_load ls srv s) = Some []
        \<and> orders_err (orders_load ls srv s) = ''Could not load orders.'')
   \<and> loadedRef (orders_load ls srv s)
   \<and> isPublic (email_request ls)
   \<and> headers (email_request ls) ''Authorization'' = None
   \<and> param (email_request ls) ''email''
        = JStr (if js_trim (get_email ls) = [] then ''buyer@example.com'' else js_trim (get_email ls))"
proof -
  have loaded: "loadedRef (orders_load ls srv s)"
    by (simp add: orders_load_def Let_def)
  have first: "orders_load ls srv s =
      s\<lparr>orders_err := ''Session expired. Showing demo orders.'',
        orders_sent := orders_sent s @ [me_request ls, email_request ls],
        orders := Some (data_or_empty d), loadedRef := True\<rparr>"
    if "isAuthed s" "\<not> loadedRef s" "srv (me_request ls) = Inl e" "status e = Some 401"
       "srv (email_request ls) = Inr d"
    using that by (simp add: orders_load_def Let_def)
  have later: "orders_load ls srv s =
      s\<lparr>orders_err := ''Could not load orders.'', orders_sent := orders_sent s @ [me_request ls],
        orders := Some [], loadedRef := True\<rparr>"
    if "isAuthed s" "loadedRef s" "srv (me_request ls) = Inl e"
    using that by (simp add: orders_load_def Let_def)
  show ?thesis
    using loaded first later isPublic_email_request [of ls] headers_email_request [of ls]
    by (simp add: param_email_request demoEmail_def Let_def)
qed

theorem orders_session_expired_fallback_witness:
  "isAuthed (orders_mount [TOKEN_KEY \<mapsto> ''abc''] :: string orders_page)
   \<and> \<not> loadedRef (orders_mount [TOKEN_KEY \<mapsto> ''abc''] :: string orders_page)
   \<and> expired_session (Some [''order-1'']) (me_request [TOKEN_KEY \<mapsto> ''abc'']) = Inl unauthorized
   \<and> status unauthorized = Some 401
   \<and> expired_session (Some [''order-1'']) (email_request [TOKEN_KEY \<mapsto> ''abc''])
       = Inr (Some [''order-1''])
   \<and> orders (orders_load [TOKEN_KEY \<mapsto> ''abc''] (expired_session (Some [''order-1'']))
               (orders_mount [TOKEN_KEY \<mapsto> ''abc'']))
       = Some [''order-1'']
   \<and> orders_err (orders_load [TOKEN_KEY \<mapsto> ''abc''] (expired_session (Some [''order-1'']))
                   (orders_mount [TOKEN_KEY \<mapsto> ''abc'']))
       = ''Session expired. Showing demo orders.''
   \<and> orders (orders_load [TOKEN_KEY \<mapsto> ''abc''] (expired_session (Some [''order-1'']))
               (orders_load [TOKEN_KEY \<mapsto> ''abc''] (expired_session (Some [''order-1'']))
                  (orders_mount [TOKEN_KEY \<mapsto> ''abc''])))
       = Some []"
proof -
  let ?ls = "[TOKEN_KEY \<mapsto> ''abc'']"
  let ?srv = "expired_session (Some [''order-1'']) :: string list option server"
  let ?s0 = "orders_mount ?ls :: string orders_page"
  have s0: "isAuthed ?s0" "\<not> loadedRef ?s0"
    by (simp_all add: orders_mount_def access_def)
  have srv: "?srv (me_request ?ls) = Inl unauthorized" "?srv (email_request ?ls) = Inr (Some [''order-1''])"
    by (simp_all add: expired_session_def url_me_request url_email_request)
  have st: "status unauthorized = Some 401"
    by (simp add: unauthorized_def)
  have auth1: "isAuthed (orders_load ?ls ?srv ?s0)"
    using s0 by (simp add: orders_load_def Let_def split: sum.splits)
  show ?thesis
    using orders_session_expired_fallback [of ?s0 ?srv ?ls unauthorized "Some [''order-1'']"]
      orders_session_expired_fallback [of "orders_load ?ls ?srv ?s0" ?srv ?ls unauthorized "Some [''order-1'']"]
    by (simp add: s0 srv st auth1 data_or_empty_def)
qed

section \<open>Checkout page: the selected shipping quote\<close>

text \<open>
  The two calls of \<^verbatim>\<open>setShippingId\<close> in \<^verbatim>\<open>loadQuotes\<close> may run in either order (the
  updater passed to \<^verbatim>\<open>setQuotes\<close> runs when React processes the queue); both orders end
  in the same state, see \<open>next_shippingId_commute\<close>.

  Claim C8. For every shipping-quote refresh: if no quote was selected or the selected
  quote id is absent from the new list, the selection becomes the first quote of the
  new list (none if the list is empty); if the selected quote id is still present in
  the new list, the selection is preserved. The code says so itself (\<^verbatim>\<open>keep previous
  selection if still present\<close>), and \<^verbatim>\<open>selectedQuote\<close> and the radio buttons find the
  selected quote with \<^verbatim>\<open>===\<close>, for which \<^verbatim>\<open>0\<close> is an id like any other. The last line of
  \<^verbatim>\<open>loadQuotes\<close> tests \<^verbatim>\<open>!shippingId\<close> where it means that nothing is selected, and
  misses there: a first load of the list [standard, economy] selects the quote of id
  \<^verbatim>\<open>0\<close>; a refresh that returns [express, standard] still holds that quote, and moves
  the selection to express.
\<close>

theorem loadQuotes_zero_id_selection_lost:
  "shippingId (loadQuotes Map.empty (accepting (Some [standard, economy]))
                (sample_checkout\<lparr>quotes := [], shippingId := JNull\<rparr>)) = JNum 0
   \<and> shippingId zero_id_checkout = JNum 0
   \<and> selectedQuote zero_id_checkout = Some standard
   \<and> q_id standard = JNum 0
   \<and> quotes (loadQuotes Map.empty (accepting (Some [express, standard])) zero_id_checkout)
       = [express, standard]
   \<and> shippingId (loadQuotes Map.empty (accepting (Some [express, standard])) zero_id_checkout)
       = JNum 5
   \<and> selectedQuote (loadQuotes Map.empty (accepting (Some [express, standard])) zero_id_checkout)
       = Some express"
  by (simp add: zero_id_checkout_def loadQuotes_def Let_def subtotal_sample_checkout accepting_def
      data_or_empty_def next_shippingId_def stillThere_def first_id_def selectedQuote_def
      express_def standard_def economy_def)

text \<open>
  Where the selected id is \<^verbatim>\<open>null\<close> (nothing selected) or truthy, the refresh does what
  the claim says.
\<close>

lemma loadQuotes_selection_kept:
  assumes "truthy (cart_field subtotal (cartTotals s))"
    and "srv (quote_request ls (cart_field subtotal (cartTotals s))) = Inr d"
    and "shippingId s = JNull \<or> truthy (shippingId s)"
  shows "quotes (loadQuotes ls srv s) = data_or_empty d
     \<and> (shippingId s = JNull \<or> shippingId s \<notin> q_id ` set (data_or_empty d) \<longrightarrow>
          shippingId (loadQuotes ls srv s)
            = (case data_or_empty d of [] \<Rightarrow> JNull | q # _ \<Rightarrow> q_id q)
          \<and> selectedQuote (loadQuotes ls srv s)
            = (case data_or_empty d of [] \<Rightarrow> None | q # _ \<Rightarrow> Some q))
     \<and> (shippingId s \<noteq> JNull \<and> shippingId s \<in> q_id ` set (data_or_empty d) \<longrightarrow>
          shippingId (loadQuotes ls srv s) = shippingId s
          \<and> (\<exists>q \<in> set (data_or_empty d).
                selectedQuote (loadQuotes ls srv s) = Some q \<and> q_id q = shippingId s))"
proof -
  let ?list = "data_or_empty d"
  let ?s' = "loadQuotes ls srv s"
  have q: "quotes ?s' = ?list" and sid: "shippingId ?s' = next_shippingId ?list (shippingId s)"
    using assms(1,2) by (simp_all add: loadQuotes_def Let_def)
  have reset: "next_shippingId ?list (shippingId s) = first_id ?list"
    if "shippingId s = JNull \<or> shippingId s \<notin> q_id ` set ?list"
    using that by (auto simp: next_shippingId_def stillThere_iff first_id_def)
  have keep: "next_shippingId ?list (shippingId s) = shippingId s"
    if "shippingId s \<noteq> JNull" "shippingId s \<in> q_id ` set ?list"
    using that assms(3) by (simp add: next_shippingId_def stillThere_iff)
  have sel_reset: "selectedQuote ?s' = (case ?list of [] \<Rightarrow> None | q # _ \<Rightarrow> Some q)"
    if "shippingId ?s' = first_id ?list"
    using that q find_first_id [of ?list]
    by (cases ?list) (simp_all add: selectedQuote_def)
  have sel_keep: "\<exists>q \<in> set ?list. selectedQuote ?s' = Some q \<and> q_id q = shippingId s"
    if "shippingId ?s' = shippingId s" "shippingId s \<in> q_id ` set ?list"
    using that q find_present [of "shippingId s" ?list]
    by (cases ?list) (auto simp: selectedQuote_def)
  show ?thesis
    using q sid reset keep sel_reset sel_keep by (auto simp: first_id_def)
qed

lemma loadQuotes_selection_kept_example:
  "shippingId sample_checkout = JNum 9
   \<and> truthy (cart_field subtotal (cartTotals sample_checkout))
   \<and> shippingId (loadQuotes Map.empty (accepting (Some [express, economy])) sample_checkout) = JNum 9
   \<and> selectedQuote (loadQuotes Map.empty (accepting (Some [express, economy])) sample_checkout)
       = Some economy
   \<and> shippingId (loadQuotes Map.empty (accepting (Some [express])) sample_checkout) = JNum 5
   \<and> selectedQuote (loadQuotes Map.empty (accepting (Some [express])) sample_checkout)
       = Some express
   \<and> shippingId (loadQuotes Map.empty (accepting (Some [])) sample_checkout) = JNull
   \<and> selectedQuote (loadQuotes Map.empty (accepting (Some [])) sample_checkout) = None"
proof -
  have sid: "shippingId sample_checkout = JNum 9"
    by (simp add: sample_checkout_def)
  have ids: "q_id express = JNum 5" "q_id economy = JNum 9"
    by (simp_all add: express_def economy_def)
  show ?thesis
    using loadQuotes_selection_kept [of sample_checkout "accepting (Some [express, economy])"
            Map.empty "Some [express, economy]"]
      loadQuotes_selection_kept [of sample_checkout "accepting (Some [express])" Map.empty
            "Some [express]"]
      loadQuotes_selection_kept [of sample_checkout "accepting (Some [])" Map.empty "Some []"]
    by (auto simp: subtotal_sample_checkout accepting_def data_or_empty_def sid ids)
qed

section \<open>Rate limiting (status 429)\<close>

text \<open>
  Claim C2. A failure with status 429 of a coupon application, a checkout submission or
  a quantity change shows the dedicated slow-down message, whatever \<^verbatim>\<open>detail\<close> or
  \<^verbatim>\<open>message\<close> the payload holds. \<^verbatim>\<open>prettifyQtyError\<close> and \<^verbatim>\<open>prettifyError\<close> test the
  status first and do so; \<^verbatim>\<open>applyCoupon\<close> reads \<^verbatim>\<open>detail\<close> and \<^verbatim>\<open>message\<close> first and
  reaches its own 429 wording only when both are empty. On the throttling answer below,
  the coupon path shows the server's detail, the other two paths their dedicated
  messages.
\<close>

theorem applyCoupon_throttled_shows_detail:
  "status throttled = Some 429
   \<and> err (applyCoupon Map.empty (rejecting throttled) (sample_page\<lparr>code := ''SAVE10''\<rparr>))
       = ''Request was throttled. Expected available in 30 seconds.''
   \<and> err (changeQty sample_runtime Map.empty (rejecting throttled) (JNum 7) (Fin 3) sample_page)
       = ''You're doing that too quickly. Please slow down and try again.''
   \<and> checkout_err (placeOrder Map.empty (rejecting throttled) [] sample_checkout)
       = ''Too many requests '' @ em_dash @ '' please try again in a moment.''"
  by (simp add: throttled_def applyCoupon_def Let_def js_trim_SAVE10 rejecting_def str_or_def
      changeQty_def changeQty_begin_def prettifyQtyError_def placeOrder_def prettifyError_def
      canSubmit_def sample_checkout_def sample_page_def cart_items_def sample_cart_def)

text \<open>
  The checkout sample passes the guard of \<^verbatim>\<open>placeOrder\<close>, and what the coupon path shows
  is not its 429 wording.
\<close>

theorem applyCoupon_throttled_shows_detail_witness:
  "canSubmit sample_checkout \<and> \<not> loading sample_checkout
   \<and> err (applyCoupon Map.empty (rejecting throttled) (sample_page\<lparr>code := ''SAVE10''\<rparr>))
       \<noteq> ''Too many attempts. Please wait a moment and try again.''"
  using applyCoupon_throttled_shows_detail
  by (simp add: canSubmit_def sample_checkout_def cart_items_def sample_cart_def)

text \<open>The same on every rejection with status 429, for each of the three paths.\<close>

lemma changeQty_429_message:
  assumes "srv (patch_request ls itemId (clampQty js (cart s) nextQty)) = Inl e" and "status e = Some 429"
  shows "err (changeQty js ls srv itemId nextQty s)
           = ''You're doing that too quickly. Please slow down and try again.''"
  using assms by (simp add: changeQty_def Let_def prettifyQtyError_def)

lemma placeOrder_429_message:
  assumes "canSubmit s" and "\<not> loading s"
    and "srv (checkout_request ls payload) = Inl e" and "status e = Some 429"
  shows "checkout_err (placeOrder ls srv payload s)
           = ''Too many requests '' @ em_dash @ '' please try again in a moment.''"
  using assms by (simp add: placeOrder_def Let_def prettifyError_def)

lemma applyCoupon_429_message:
  assumes "js_trim (code s) \<noteq> []"
    and "srv (coupon_request ls (js_trim (code s))) = Inl e" and "status e = Some 429"
  shows "err (applyCoupon ls srv s)
           = str_or (detail e) (str_or (message e)
               ''Too many attempts. Please wait a moment and try again.'')"
  using assms by (simp add: applyCoupon_def Let_def)

section \<open>Cart page: the stock hint of a conflict (status 409)\<close>




text \<open>
  From \<open>2 ^ 53\<close> on, the number in the message is what the runtime prints for the rounded
  double.
\<close>

lemma digits_text_large:
  "2 ^ 53 \<le> digits_to_nat ds \<Longrightarrow> digits_text js ds = Number_text js ds"
  by (simp add: digits_text_def)

end
